theory Spec2Isabelle
  imports Complex_Main
begin

section \<open>Python values and exceptions\<close>

text \<open>
  The exceptions the two source files can raise, as values.  A fallible function returns
  \<open>error + 'a\<close> with \<open>Inl\<close> for the exception.  Floating-point numbers of the source
  (float64) are idealised as \<open>real\<close>.
\<close>

datatype error =
    AssertionError
  | ValueError
  | IndexError
  | ZeroDivisionError
  | NameError
  | UnboundLocalError
  | TypeError
  | AxisError
  | OSError

text \<open>
  \<open>range(start, stop, step)\<close>: a zero step raises \<open>ValueError\<close>; otherwise the
  elements are \<open>start + k * step\<close> for \<open>k\<close> below the length Python computes.
\<close>

definition range_len :: "int \<Rightarrow> int \<Rightarrow> int \<Rightarrow> nat" where
  "range_len start stop step =
     (if 0 < step \<and> start < stop then nat ((stop - start - 1) div step + 1)
      else if step < 0 \<and> stop < start then nat ((start - stop - 1) div (- step) + 1)
      else 0)"

definition py_range :: "int \<Rightarrow> int \<Rightarrow> int \<Rightarrow> error + int list" where
  "py_range start stop step =
     (if step = 0 then Inl ValueError
      else Inr (map (\<lambda>k. start + int k * step) [0..<range_len start stop step]))"

text \<open>
  \<open>xs[a:b]\<close>: a negative bound counts from the end, and both bounds are clamped to
  the sequence, so a slice never raises.
\<close>

definition slice_index :: "nat \<Rightarrow> int \<Rightarrow> nat" where
  "slice_index n i = (if i < 0 then nat (max 0 (int n + i)) else min n (nat i))"

definition py_slice :: "'a list \<Rightarrow> int \<Rightarrow> int \<Rightarrow> 'a list" where
  "py_slice xs a b =
     (let lo = slice_index (length xs) a; hi = slice_index (length xs) b
      in take (hi - lo) (drop lo xs))"

text \<open>
  \<open>xs[idx]\<close> for an array of indices \<open>idx\<close> (numpy's integer-array indexing): an index
  outside the array raises \<open>IndexError\<close>.
\<close>

definition take_indices :: "'a list \<Rightarrow> nat list \<Rightarrow> error + 'a list" where
  "take_indices xs idx =
     (if list_all (\<lambda>i. i < length xs) idx then Inr (map (nth xs) idx) else Inl IndexError)"

section \<open>train.py: \<open>iterate_minibatches\<close>\<close>

text \<open>
  \<open>indices\<close> stands for \<open>np.arange(len(inputs))\<close> after \<open>np.random.shuffle\<close>: the
  outcome of the shuffle is an argument of the model.  It is read only when
  \<open>shuffle\<close> is true.  The generator's batches are returned as a list, in the order
  they are yielded.
\<close>

definition excerpt_of :: "bool \<Rightarrow> nat list \<Rightarrow> 'a list \<Rightarrow> int \<Rightarrow> int \<Rightarrow> error + 'a list" where
  "excerpt_of shuffle indices xs start_idx batchsize =
     (if shuffle then take_indices xs (py_slice indices start_idx (start_idx + batchsize))
      else Inr (py_slice xs start_idx (start_idx + batchsize)))"

fun yield_batches ::
  "bool \<Rightarrow> nat list \<Rightarrow> 'a list \<Rightarrow> 'b list \<Rightarrow> int \<Rightarrow> int list \<Rightarrow> error + ('a list \<times> 'b list) list"
where
  "yield_batches shuffle indices inputs targets batchsize [] = Inr []"
| "yield_batches shuffle indices inputs targets batchsize (start_idx # rest) =
     (case excerpt_of shuffle indices inputs start_idx batchsize of
        Inl e \<Rightarrow> Inl e
      | Inr xb \<Rightarrow>
          (case excerpt_of shuffle indices targets start_idx batchsize of
             Inl e \<Rightarrow> Inl e
           | Inr yb \<Rightarrow>
               (case yield_batches shuffle indices inputs targets batchsize rest of
                  Inl e \<Rightarrow> Inl e
                | Inr bs \<Rightarrow> Inr ((xb, yb) # bs))))"

definition iterate_minibatches ::
  "nat list \<Rightarrow> 'a list \<Rightarrow> 'b list \<Rightarrow> int \<Rightarrow> bool \<Rightarrow> error + ('a list \<times> 'b list) list"
where
  "iterate_minibatches indices inputs targets batchsize shuffle =
     (if length inputs \<noteq> length targets then Inl AssertionError
      else
        (case py_range 0 (int (length inputs) - batchsize + 1) batchsize of
           Inl e \<Rightarrow> Inl e
         | Inr starts \<Rightarrow> yield_batches shuffle indices inputs targets batchsize starts))"

section \<open>train.py: binarising the labels and the class weights\<close>

text \<open>
  Lines 117--119 of \<open>main\<close>: two masked assignments, one after the other, on the whole
  label array (samples \<open>\<times>\<close> timesteps \<open>\<times>\<close> anchors).  The second assignment reads the
  array the first one wrote.
\<close>

definition assign_ge :: "real \<Rightarrow> real \<Rightarrow> real" where
  "assign_ge tIoU v = (if v \<ge> tIoU then 1 else v)"

definition assign_lt :: "real \<Rightarrow> real \<Rightarrow> real" where
  "assign_lt tIoU v = (if v < tIoU then 0 else v)"

definition binarize :: "real \<Rightarrow> real list list list \<Rightarrow> real list list list" where
  "binarize tIoU y = map (map (map (assign_lt tIoU))) (map (map (map (assign_ge tIoU))) y)"

text \<open>
  Lines 121--122: \<open>np.mean(((y_train == v).sum(1).astype(np.float64) / args.seq_length), axis=0)\<close>.
  \<open>K\<close> is the last dimension of the array's shape.  A float64 division by zero gives
  \<open>inf\<close> or \<open>nan\<close> (no exception): \<open>None\<close> stands for such a non-finite value, which
  every later sum and mean keeps.  An empty list of samples is a one-dimensional array,
  on which \<open>sum(1)\<close> raises.
\<close>

definition eq_mask :: "real \<Rightarrow> real list list list \<Rightarrow> bool list list list" where
  "eq_mask v y = map (map (map (\<lambda>x. x = v))) y"

definition sum_axis1 :: "nat \<Rightarrow> bool list list list \<Rightarrow> nat list list" where
  "sum_axis1 K m = map (\<lambda>sample. map (\<lambda>k. length (filter (\<lambda>row. row ! k) sample)) [0..<K]) m"

definition np_divide :: "real \<Rightarrow> int \<Rightarrow> real option" where
  "np_divide a b = (if b = 0 then None else Some (a / real_of_int b))"

definition np_mean :: "real option list \<Rightarrow> real option" where
  "np_mean xs =
     (if xs = [] \<or> list_ex (\<lambda>x. x = None) xs then None
      else Some (sum_list (map the xs) / real (length xs)))"

definition mean_axis0 :: "nat \<Rightarrow> real option list list \<Rightarrow> real option list" where
  "mean_axis0 K rows = map (\<lambda>k. np_mean (map (\<lambda>r. r ! k) rows)) [0..<K]"

definition class_weight :: "nat \<Rightarrow> int \<Rightarrow> real \<Rightarrow> real list list list \<Rightarrow> error + real option list" where
  "class_weight K seq_length v y =
     (if y = [] then Inl AxisError
      else Inr (mean_axis0 K
                  (map (map (\<lambda>c. np_divide (real c) seq_length)) (sum_axis1 K (eq_mask v y)))))"

text \<open>The pair \<open>(w0, w1)\<close> as \<open>main\<close> assigns it: \<open>w0\<close> counts the ones, \<open>w1\<close> the zeros.\<close>

definition class_weights ::
  "nat \<Rightarrow> int \<Rightarrow> real list list list \<Rightarrow> (error + real option list) \<times> (error + real option list)"
where
  "class_weights K seq_length y_train =
     (class_weight K seq_length 1 y_train, class_weight K seq_length 0 y_train)"

text \<open>
  The specification's wording, for comparison with the code: the fraction of the
  timesteps of one sequence whose label for anchor \<open>k\<close> is \<open>v\<close>, and its mean over the
  samples.
\<close>

definition label_fraction :: "real \<Rightarrow> nat \<Rightarrow> real list list \<Rightarrow> real" where
  "label_fraction v k sample =
     real (length (filter (\<lambda>row. row ! k = v) sample)) / real (length sample)"

definition mean_label_fraction :: "real \<Rightarrow> nat \<Rightarrow> real list list list \<Rightarrow> real" where
  "mean_label_fraction v k y = sum_list (map (label_fraction v k) y) / real (length y)"

section \<open>train.py: the training loop\<close>

text \<open>
  The network, the loss object and the optimiser come from \<open>pytorch_sst.model\<close> and
  \<open>torch\<close>, which are not among the source files: they are arguments of the model.
  \<open>forward\<close> is \<open>model(X_t)\<close> (it reads the parameters and the hidden state and returns
  outputs and states), \<open>criterion\<close> the loss, \<open>backward\<close> the gradient that
  \<open>loss.backward()\<close> adds to the stored gradients, \<open>sgd_step\<close> the update of
  \<open>optimizer.step()\<close> on parameters and optimiser state.
\<close>

record ('x, 'y) learner =
  init_hidden :: "real list"
  forward :: "bool \<Rightarrow> real list \<Rightarrow> real list \<Rightarrow> 'x list \<Rightarrow> real list \<times> real list"
  criterion :: "'y list \<Rightarrow> real list \<Rightarrow> real"
  backward :: "real list \<Rightarrow> real list \<Rightarrow> 'x list \<Rightarrow> 'y list \<Rightarrow> real list"
  sgd_step :: "real list \<Rightarrow> real list \<Rightarrow> real list \<Rightarrow> real list \<times> real list"

record trainer =
  params :: "real list"
  opt_state :: "real list"
  grads :: "real list"
  hidden :: "real list"
  training :: bool

record checkpoint =
  epoch :: nat
  arch :: string
  state_dict :: "real list"
  train_loss :: real
  val_loss :: real
  optimizer :: "real list"

record filesystem =
  dirs :: "string set"
  files :: "string \<rightharpoonup> checkpoint"

record args =
  method_name :: string
  param_dir :: string
  batch_size :: int
  num_epochs :: int

text \<open>
  Paths are strings, compared as written but for trailing slashes, which the system
  ignores.  \<open>dirname\<close> is \<open>os.path.dirname\<close>.  A relative path with no slash lies in
  the current directory, which exists, as the root does.  \<open>dirs\<close> holds the
  directories by their paths without trailing slash.
\<close>

definition is_slash :: "char \<Rightarrow> bool" where
  "is_slash c = (c = CHR ''/'')"

definition strip_slashes :: "string \<Rightarrow> string" where
  "strip_slashes p =
     (if list_all is_slash p then (if p = [] then [] else ''/'')
      else rev (dropWhile is_slash (rev p)))"

definition dirname :: "string \<Rightarrow> string" where
  "dirname p =
     (let head = rev (dropWhile (\<lambda>c. \<not> is_slash c) (rev p))
      in if head \<noteq> [] \<and> \<not> list_all is_slash head then rev (dropWhile is_slash (rev head))
         else head)"

definition dir_exists :: "filesystem \<Rightarrow> string \<Rightarrow> bool" where
  "dir_exists fs d = (d = ''/'' \<or> d \<in> dirs fs)"

definition path_exists :: "filesystem \<Rightarrow> string \<Rightarrow> bool" where
  "path_exists fs p = (p \<noteq> [] \<and> (dir_exists fs (strip_slashes p) \<or> files fs p \<noteq> None))"

definition parent_exists :: "filesystem \<Rightarrow> string \<Rightarrow> bool" where
  "parent_exists fs p =
     (let d = dirname (strip_slashes p) in d = [] \<or> dir_exists fs (strip_slashes d))"

text \<open>
  \<open>os.mkdir\<close> makes one directory: it raises \<open>OSError\<close> when the path exists already
  or when its parent is not an existing directory.
\<close>

definition mkdir :: "filesystem \<Rightarrow> string \<Rightarrow> error + filesystem" where
  "mkdir fs p =
     (if p = [] \<or> path_exists fs p \<or> \<not> parent_exists fs p then Inl OSError
      else Inr (fs\<lparr>dirs := insert (strip_slashes p) (dirs fs)\<rparr>))"

definition torch_save :: "filesystem \<Rightarrow> checkpoint \<Rightarrow> string \<Rightarrow> filesystem" where
  "torch_save fs ck p = fs\<lparr>files := (files fs)(p \<mapsto> ck)\<rparr>"

text \<open>A name that is bound nowhere raises \<open>NameError\<close> when it is read.\<close>

definition lookup_name :: "(string \<rightharpoonup> string) \<Rightarrow> string \<Rightarrow> error + string" where
  "lookup_name scope name = (case scope name of None \<Rightarrow> Inl NameError | Some v \<Rightarrow> Inr v)"

text \<open>\<open>a / b\<close> for a float \<open>a\<close> and an integer \<open>b\<close>.\<close>

definition py_truediv :: "real \<Rightarrow> nat \<Rightarrow> error + real" where
  "py_truediv a b = (if b = 0 then Inl ZeroDivisionError else Inr (a / real b))"

text \<open>\<open>str(i)\<close> for a natural number.\<close>

definition digit_char :: "nat \<Rightarrow> char" where
  "digit_char d = ''0123456789'' ! d"

function str_nat :: "nat \<Rightarrow> string" where
  "str_nat n = (if n < 10 then [digit_char n] else str_nat (n div 10) @ [digit_char (n mod 10)])"
  by pat_completeness auto
termination
  by (relation "measure id") auto

text \<open>The body of the first loop over the minibatches (lines 190--201).\<close>

definition train_batch :: "('x, 'y) learner \<Rightarrow> trainer \<Rightarrow> 'x list \<times> 'y list \<Rightarrow> trainer \<times> real" where
  "train_batch L st batch =
     (let st1 = st\<lparr>grads := map (\<lambda>_. 0) (grads st)\<rparr>;
          st2 = st1\<lparr>hidden := init_hidden L\<rparr>;
          (X_t, y_t) = batch;
          (outputs, states) = forward L (training st2) (params st2) (hidden st2) X_t;
          loss = criterion L y_t outputs;
          st3 = st2\<lparr>grads := map2 (+) (grads st2) (backward L (params st2) (hidden st2) X_t y_t)\<rparr>;
          (p, opt) = sgd_step L (params st3) (opt_state st3) (grads st3);
          st4 = st3\<lparr>params := p, opt_state := opt\<rparr>
      in (st4, loss))"

fun train_pass ::
  "('x, 'y) learner \<Rightarrow> trainer \<Rightarrow> real \<Rightarrow> nat \<Rightarrow> ('x list \<times> 'y list) list \<Rightarrow> trainer \<times> real \<times> nat"
where
  "train_pass L st loss_sum batches [] = (st, loss_sum, batches)"
| "train_pass L st loss_sum batches (b # bs) =
     (let (st', loss) = train_batch L st b
      in train_pass L st' (loss_sum + loss) (batches + 1) bs)"

text \<open>The body of the second loop (lines 208--216): no \<open>backward\<close>, no \<open>step\<close>.\<close>

definition eval_batch :: "('x, 'y) learner \<Rightarrow> trainer \<Rightarrow> 'x list \<times> 'y list \<Rightarrow> trainer \<times> real" where
  "eval_batch L st batch =
     (let st1 = st\<lparr>hidden := init_hidden L\<rparr>;
          (X_t, y_t) = batch;
          (outputs, states) = forward L (training st1) (params st1) (hidden st1) X_t;
          loss = criterion L y_t outputs
      in (st1, loss))"

fun eval_pass ::
  "('x, 'y) learner \<Rightarrow> trainer \<Rightarrow> real \<Rightarrow> nat \<Rightarrow> ('x list \<times> 'y list) list \<Rightarrow> trainer \<times> real \<times> nat"
where
  "eval_pass L st loss_sum batches [] = (st, loss_sum, batches)"
| "eval_pass L st loss_sum batches (b # bs) =
     (let (st', loss) = eval_batch L st b
      in eval_pass L st' (loss_sum + loss) (batches + 1) bs)"

text \<open>
  Lines 222--234.  The names bound in \<open>main\<close> when \<open>torch.save\<close> is called are the
  function's locals; of the string-valued ones only \<open>ckpt_dir\<close> matters here.  The
  module binds no \<open>save_dir\<close> either.  The dictionary argument is evaluated before the
  path argument, and \<open>os.mkdir\<close> has run by then, if the directory was missing.
\<close>

definition main_scope :: "string \<Rightarrow> (string \<rightharpoonup> string)" where
  "main_scope ckpt_dir = [''ckpt_dir'' \<mapsto> ckpt_dir]"

definition save_checkpoint ::
  "args \<Rightarrow> nat \<Rightarrow> trainer \<Rightarrow> real \<Rightarrow> nat \<Rightarrow> real \<Rightarrow> nat \<Rightarrow> filesystem \<Rightarrow> error \<times> filesystem + filesystem"
where
  "save_checkpoint A i st tr_loss tr_batches v_loss v_batches fs =
     (if i mod 10 = 0 then
        (let ckpt_dir = param_dir A @ method_name A in
         case (if path_exists fs ckpt_dir = False then mkdir fs ckpt_dir else Inr fs) of
           Inl e \<Rightarrow> Inl (e, fs)
         | Inr fs1 \<Rightarrow>
             (case py_truediv tr_loss tr_batches of
                Inl e \<Rightarrow> Inl (e, fs1)
              | Inr mean_tr \<Rightarrow>
                  (case py_truediv v_loss v_batches of
                     Inl e \<Rightarrow> Inl (e, fs1)
                   | Inr mean_v \<Rightarrow>
                       (case lookup_name (main_scope ckpt_dir) ''save_dir'' of
                          Inl e \<Rightarrow> Inl (e, fs1)
                        | Inr save_dir \<Rightarrow>
                            Inr (torch_save fs1
                                   \<lparr>epoch = i, arch = method_name A, state_dict = params st,
                                    train_loss = mean_tr, val_loss = mean_v,
                                    optimizer = opt_state st\<rparr>
                                   (save_dir @ ''/epoch_'' @ str_nat i @ ''.pth.tar''))))))
      else Inr fs)"

text \<open>
  One iteration of the loop over the epochs (lines 184--234).  \<open>shuffled\<close> is the
  outcome of this epoch's shuffle.  An exception leaves the loop with the file system
  as it is at that moment.
\<close>

definition run_epoch ::
  "('x, 'y) learner \<Rightarrow> args \<Rightarrow> nat list \<Rightarrow> 'x list \<Rightarrow> 'y list \<Rightarrow> nat \<Rightarrow> trainer \<times> filesystem
     \<Rightarrow> error \<times> filesystem + trainer \<times> filesystem"
where
  "run_epoch L A shuffled X_train y_train i s =
     (let (st, fs) = s in
      case iterate_minibatches shuffled X_train y_train (batch_size A) True of
        Inl e \<Rightarrow> Inl (e, fs)
      | Inr tb \<Rightarrow>
          (let (st1, tr_loss, tr_batches) = train_pass L (st\<lparr>training := True\<rparr>) 0 0 tb in
           case iterate_minibatches shuffled X_train y_train (batch_size A) False of
             Inl e \<Rightarrow> Inl (e, fs)
           | Inr vb \<Rightarrow>
               (let (st2, v_loss, v_batches) = eval_pass L (st1\<lparr>training := False\<rparr>) 0 0 vb in
                case py_truediv tr_loss tr_batches of
                  Inl e \<Rightarrow> Inl (e, fs)
                | Inr _ \<Rightarrow>
                    (case py_truediv v_loss v_batches of
                       Inl e \<Rightarrow> Inl (e, fs)
                     | Inr _ \<Rightarrow>
                         (case save_checkpoint A i st2 tr_loss tr_batches v_loss v_batches fs of
                            Inl ef \<Rightarrow> Inl ef
                          | Inr fs' \<Rightarrow> Inr (st2, fs'))))))"

fun run_epochs ::
  "('x, 'y) learner \<Rightarrow> args \<Rightarrow> (nat \<Rightarrow> nat list) \<Rightarrow> 'x list \<Rightarrow> 'y list \<Rightarrow> nat list
     \<Rightarrow> trainer \<times> filesystem \<Rightarrow> error \<times> filesystem + trainer \<times> filesystem"
where
  "run_epochs L A shuffle_of X_train y_train [] s = Inr s"
| "run_epochs L A shuffle_of X_train y_train (i # rest) s =
     (case run_epoch L A (shuffle_of i) X_train y_train i s of
        Inl ef \<Rightarrow> Inl ef
      | Inr s' \<Rightarrow> run_epochs L A shuffle_of X_train y_train rest s')"

text \<open>\<open>for i in range(args.num_epochs)\<close>.\<close>

definition training_loop ::
  "('x, 'y) learner \<Rightarrow> args \<Rightarrow> (nat \<Rightarrow> nat list) \<Rightarrow> 'x list \<Rightarrow> 'y list
     \<Rightarrow> trainer \<times> filesystem \<Rightarrow> error \<times> filesystem + trainer \<times> filesystem"
where
  "training_loop L A shuffle_of X_train y_train s =
     run_epochs L A shuffle_of X_train y_train [0..<nat (num_epochs A)] s"

section \<open>model.py: \<open>SSTSequenceEncoder\<close>\<close>

text \<open>
  An array is its shape and its elements in row-major order, so \<open>ravel\<close> is \<open>data\<close>.
\<close>

record ndarray =
  shape :: "nat list"
  data :: "real list"


text \<open>
  The graph \<open>_build_network\<close> builds, as a term: each Lasagne layer with its incoming
  layer and the arguments the source passes.  An entry of a \<open>ReshapeLayer\<close>'s shape is
  an integer or one of the two symbolic dimensions of the input variable.
\<close>

datatype dim = Fixed int | BatchSize | SeqLen

datatype layer =
    InputLayer "int option" int
  | GRULayer layer int real
  | DropoutLayer layer real
  | ReshapeLayer layer "dim list"
  | DenseLayer layer int

text \<open>
  The functions \<open>compile\<close> stores in \<open>train_fn\<close> and \<open>test_fn\<close>, and what a call of
  \<open>forward_eval\<close> returns: a scalar loss (\<open>None\<close> for the \<open>nan\<close> of an empty mean) or an
  array of scores.
\<close>

datatype compiled = TrainFn | TestLossFn | PredictFn


text \<open>
  The object.  The keyword arguments of \<open>__init__\<close> are the fields of the same names
  (the two symbolic variables \<open>input_var\<close> and \<open>target_var\<close> are the arguments of the
  compiled functions and have no field).  The class weights are scalars and default to
  \<open>None\<close>.  \<open>theta\<close> holds the values of the network's parameters (Theano shared
  variables, flattened), \<open>velocity\<close> those of the momentum variables, and \<open>rng\<close>
  counts the draws made from the dropout layers' random streams.
\<close>

record sst =
  mode :: string
  w0 :: "real option"
  w1 :: "real option"
  seq_length :: "int option"
  num_proposals :: int
  depth :: int
  width :: int
  input_size :: int
  grad_clip :: real
  reset_bias :: real
  dropout :: real
  verbose :: bool
  train_fn :: "compiled option"
  test_fn :: "compiled option"
  network :: layer
  theta :: "real list"
  velocity :: "real list"
  rng :: nat

text \<open>
  What the layers do is Lasagne's and Theano's business, not the repository's: it is an
  argument of the model.  \<open>layer_check\<close> is the exception, if any, that the library
  raises when a layer is constructed from its incoming layer and arguments.  \<open>gru_op\<close>
  and \<open>dense_op\<close> read the parameters (the dense layer applies its sigmoid),
  \<open>dropout_op\<close> reads the probability and the state of the random stream,
  \<open>reshape_op\<close> the target shape and the network's input, and \<open>grad_op\<close> is \<open>T.grad\<close>:
  it maps a loss, as a function of the parameters, and the parameters' values to the
  gradient there.
\<close>

record backend =
  layer_check :: "layer \<Rightarrow> error option"
  gru_op :: "real list \<Rightarrow> nat \<Rightarrow> ndarray \<Rightarrow> ndarray"
  dropout_op :: "real \<Rightarrow> nat \<Rightarrow> nat \<Rightarrow> ndarray \<Rightarrow> ndarray"
  reshape_op :: "dim list \<Rightarrow> ndarray \<Rightarrow> ndarray \<Rightarrow> ndarray"
  dense_op :: "real list \<Rightarrow> int \<Rightarrow> ndarray \<Rightarrow> ndarray"
  grad_op :: "(real list \<Rightarrow> error + real option) \<Rightarrow> real list \<Rightarrow> real list"

definition new_layer :: "backend \<Rightarrow> layer \<Rightarrow> error + layer" where
  "new_layer be l = (case layer_check be l of Some e \<Rightarrow> Inl e | None \<Rightarrow> Inr l)"

text \<open>\<open>_build_network\<close>: the loop over \<open>range(self.depth)\<close>, then the output stage.\<close>

fun stack_gru :: "backend \<Rightarrow> nat \<Rightarrow> int \<Rightarrow> real \<Rightarrow> bool \<Rightarrow> real \<Rightarrow> layer \<Rightarrow> error + layer" where
  "stack_gru be 0 wd gc dropout_enabled p l_gru = Inr l_gru"
| "stack_gru be (Suc n) wd gc dropout_enabled p l_gru =
     (case new_layer be (GRULayer l_gru wd gc) of
        Inl e \<Rightarrow> Inl e
      | Inr l \<Rightarrow>
          if dropout_enabled then
            (case new_layer be (DropoutLayer l p) of
               Inl e \<Rightarrow> Inl e
             | Inr l' \<Rightarrow> stack_gru be n wd gc dropout_enabled p l')
          else stack_gru be n wd gc dropout_enabled p l)"

definition build_network :: "backend \<Rightarrow> sst \<Rightarrow> error + layer" where
  "build_network be self =
     (case new_layer be (InputLayer (seq_length self) (input_size self)) of
        Inl e \<Rightarrow> Inl e
      | Inr l_input \<Rightarrow>
          (let dropout_enabled = dropout self > 0 in
           case stack_gru be (nat (depth self)) (width self) (grad_clip self)
                  dropout_enabled (dropout self) l_input of
             Inl e \<Rightarrow> Inl e
           | Inr l_gru \<Rightarrow>
               (case new_layer be (ReshapeLayer l_gru [Fixed (- 1), Fixed (width self)]) of
                  Inl e \<Rightarrow> Inl e
                | Inr l_reshape \<Rightarrow>
                    (case new_layer be (DenseLayer l_reshape (num_proposals self)) of
                       Inl e \<Rightarrow> Inl e
                     | Inr l_dense \<Rightarrow>
                         new_layer be
                           (ReshapeLayer l_dense [BatchSize, SeqLen, Fixed (num_proposals self)])))))"

text \<open>
  \<open>__init__\<close> (lines 50--73): the two checks, in the source's order, then the network.
\<close>

definition init :: "backend \<Rightarrow> sst \<Rightarrow> error + sst" where
  "init be kw =
     (if num_proposals kw < 0 then Inl ValueError
      else if dropout kw < 0 \<or> dropout kw > 1 then Inl ValueError
      else
        (case build_network be kw of
           Inl e \<Rightarrow> Inl e
         | Inr l_out \<Rightarrow> Inr (kw\<lparr>train_fn := None, test_fn := None, network := l_out\<rparr>)))"

fun gru_count :: "layer \<Rightarrow> nat" where
  "gru_count (InputLayer sl d) = 0"
| "gru_count (GRULayer l wd gc) = Suc (gru_count l)"
| "gru_count (DropoutLayer l p) = gru_count l"
| "gru_count (ReshapeLayer l ds) = gru_count l"
| "gru_count (DenseLayer l n) = gru_count l"

text \<open>
  \<open>lasagne.layers.get_output(network, deterministic=det)\<close> on the input \<open>x\<close>, with the
  parameters \<open>th\<close> and the random streams in state \<open>r\<close>.  A dropout layer passes its
  input through when \<open>deterministic\<close> is set or its probability is 0.
\<close>

fun get_output :: "backend \<Rightarrow> real list \<Rightarrow> bool \<Rightarrow> nat \<Rightarrow> ndarray \<Rightarrow> layer \<Rightarrow> ndarray" where
  "get_output be th det r x (InputLayer sl d) = x"
| "get_output be th det r x (GRULayer l wd gc) =
     gru_op be th (gru_count l) (get_output be th det r x l)"
| "get_output be th det r x (DropoutLayer l p) =
     (if det \<or> p = 0 then get_output be th det r x l
      else dropout_op be p r (gru_count l) (get_output be th det r x l))"
| "get_output be th det r x (ReshapeLayer l ds) =
     reshape_op be ds x (get_output be th det r x l)"
| "get_output be th det r x (DenseLayer l n) =
     dense_op be th n (get_output be th det r x l)"


definition clip :: "real \<Rightarrow> real \<Rightarrow> real \<Rightarrow> real" where
  "clip x lo hi = (if x < lo then lo else if x > hi then hi else x)"

definition tensor_mean :: "real list \<Rightarrow> real option" where
  "tensor_mean xs = (if xs = [] then None else Some (sum_list xs / real (length xs)))"

text \<open>
  Lines 123--128 of \<open>compile\<close>: \<open>term1\<close>, \<open>term2\<close> and the loss on the ravelled target
  and prediction, then its mean.  Arrays of different sizes do not combine elementwise.
\<close>

definition loss_expr :: "real \<Rightarrow> real \<Rightarrow> real list \<Rightarrow> real list \<Rightarrow> error + real option" where
  "loss_expr w_0 w_1 target prediction =
     (if length target \<noteq> length prediction then Inl ValueError
      else
        (let term1 = map (\<lambda>y. w_1 * y) target;
             term2 = map (\<lambda>y. w_0 * (1 - y)) target;
             loss = map (\<lambda>(t1, t2, p). - (t1 * ln p + (1 - t2) * ln (1 - p)))
                      (zip term1 (zip term2 prediction))
         in Inr (tensor_mean loss)))"

definition train_prediction :: "backend \<Rightarrow> sst \<Rightarrow> real list \<Rightarrow> nat \<Rightarrow> ndarray \<Rightarrow> real list" where
  "train_prediction be self th r x =
     map (\<lambda>p. clip p 0.001 0.999) (data (get_output be th False r x (network self)))"

definition test_prediction :: "backend \<Rightarrow> sst \<Rightarrow> real list \<Rightarrow> nat \<Rightarrow> ndarray \<Rightarrow> real list" where
  "test_prediction be self th r x =
     map (\<lambda>p. clip p 0.001 0.999) (data (get_output be th True r x (network self)))"

definition train_loss_of :: "backend \<Rightarrow> sst \<Rightarrow> real list \<Rightarrow> nat \<Rightarrow> ndarray \<Rightarrow> ndarray \<Rightarrow> error + real option" where
  "train_loss_of be self th r x y =
     (case (w0 self, w1 self) of
        (Some w_0, Some w_1) \<Rightarrow> loss_expr w_0 w_1 (data y) (train_prediction be self th r x)
      | _ \<Rightarrow> Inl TypeError)"

text \<open>
  Lines 135--141: \<open>test_prediction\<close> is built with \<open>deterministic=True\<close>, and the loss
  that follows is written on \<open>train_prediction\<close>.
\<close>

definition test_loss_of :: "backend \<Rightarrow> sst \<Rightarrow> real list \<Rightarrow> nat \<Rightarrow> ndarray \<Rightarrow> ndarray \<Rightarrow> error + real option" where
  "test_loss_of be self th r x y =
     (let unused = test_prediction be self th r x in
      case (w0 self, w1 self) of
        (Some w_0, Some w_1) \<Rightarrow> loss_expr w_0 w_1 (data y) (train_prediction be self th r x)
      | _ \<Rightarrow> Inl TypeError)"




text \<open>
  \<open>compile\<close> (lines 120--150).  A mode that is neither \<open>'train'\<close> nor \<open>'test'\<close> leaves the
  local \<open>test_fn\<close> unbound at line 147.  The momentum variables start at zero.
\<close>

definition compile :: "sst \<Rightarrow> error + sst" where
  "compile self =
     (if test_fn self = None then
        (if mode self = ''train'' then
           (case (w0 self, w1 self) of
              (Some w_0, Some w_1) \<Rightarrow>
                Inr (self\<lparr>train_fn := Some TrainFn, test_fn := Some TestLossFn,
                          velocity := map (\<lambda>_. 0) (theta self)\<rparr>)
            | _ \<Rightarrow> Inl TypeError)
         else if mode self = ''test'' then Inr (self\<lparr>test_fn := Some PredictFn\<rparr>)
         else Inl UnboundLocalError)
      else Inr self)"



text \<open>
  The specification's loss, for comparison with \<open>loss_expr\<close>: the mean over all
  elements of \<open>-(w1 y log p + w0 (1 - y) log (1 - p))\<close>.
\<close>

definition spec_loss :: "real \<Rightarrow> real \<Rightarrow> real list \<Rightarrow> real list \<Rightarrow> real option" where
  "spec_loss w_0 w_1 target prediction =
     tensor_mean (map (\<lambda>(y, p). - (w_1 * y * ln p + w_0 * (1 - y) * ln (1 - p)))
                    (zip target prediction))"

section \<open>Example objects\<close>

text \<open>
  Concrete arguments at which the theorems below are instantiated: the script's default
  method name and batch size, an empty file system, one that holds the directory
  \<open>params\<close>, and a small learner whose optimiser
  step moves every parameter.
\<close>

definition baseline_args :: args where
  "baseline_args = \<lparr>method_name = ''baseline'', param_dir = ''params/'', batch_size = 64, num_epochs = 200\<rparr>"

definition small_batch_args :: args where
  "small_batch_args = \<lparr>method_name = ''baseline'', param_dir = ''params/'', batch_size = 2, num_epochs = 200\<rparr>"

definition empty_fs :: filesystem where
  "empty_fs = \<lparr>dirs = {}, files = Map.empty\<rparr>"

definition params_fs :: filesystem where
  "params_fs = \<lparr>dirs = {''params''}, files = Map.empty\<rparr>"

definition toy_learner :: "(real, real) learner" where
  "toy_learner =
     \<lparr>init_hidden = [0],
      forward = (\<lambda>train p h X. (map2 (*) p X, h)),
      criterion = (\<lambda>y out. sum_list (map2 (\<lambda>a b. (a - b) * (a - b)) y out)),
      backward = (\<lambda>p h X y. map (\<lambda>_. 1) p),
      sgd_step = (\<lambda>p opt g. (map2 (\<lambda>a b. a - b / 100) p g, g))\<rparr>"

definition fresh_trainer :: trainer where
  "fresh_trainer = \<lparr>params = [1, 1], opt_state = [0, 0], grads = [0, 0], hidden = [0], training = False\<rparr>"

text \<open>
  A small backend: every layer is accepted, the recurrent layer is the identity, the dense layer the elementwise
  sigmoid, a reshape keeps the elements, and the dropout layer keeps every unit
  (rescaled by \<open>1 / (1 - p)\<close>) when the stream's state is even and drops every unit when
  it is odd, two of the masks it can draw.  Its gradient is constant.
\<close>

definition sigmoid :: "real \<Rightarrow> real" where
  "sigmoid a = 1 / (1 + exp (- a))"

definition toy_backend :: backend where
  "toy_backend =
     \<lparr>layer_check = (\<lambda>l. None),
      gru_op = (\<lambda>th i v. v),
      dropout_op = (\<lambda>p r i v. v\<lparr>data := map (\<lambda>a. if even r then a / (1 - p) else 0) (data v)\<rparr>),
      reshape_op = (\<lambda>ds x v. v),
      dense_op = (\<lambda>th n v. v\<lparr>data := map sigmoid (data v)\<rparr>),
      grad_op = (\<lambda>f th. map (\<lambda>_. 1) th)\<rparr>"

text \<open>
  Keyword arguments: one recurrent layer of width 1, one proposal, class weights 1/8
  and 7/8, and the mode, the number of proposals and the dropout probability as given.
\<close>

definition kwargs :: "string \<Rightarrow> int \<Rightarrow> real \<Rightarrow> sst" where
  "kwargs md k p =
     \<lparr>mode = md, w0 = Some (1/8), w1 = Some (7/8), seq_length = None, num_proposals = k,
      depth = 1, width = 1, input_size = 1, grad_clip = 100, reset_bias = 5, dropout = p,
      verbose = False, train_fn = None, test_fn = None, network = InputLayer None 1,
      theta = [1], velocity = [], rng = 0\<rparr>"

definition one_input :: "real \<Rightarrow> ndarray" where
  "one_input a = \<lparr>shape = [1, 1, 1], data = [a]\<rparr>"

text \<open>
  The network that \<open>_build_network\<close> makes of these arguments, and the objects that
  \<open>__init__\<close> and then \<open>compile\<close> make of them.
\<close>

definition built_network :: "int \<Rightarrow> real \<Rightarrow> layer" where
  "built_network k p =
     ReshapeLayer
       (DenseLayer
          (ReshapeLayer
             (if p > 0 then DropoutLayer (GRULayer (InputLayer None 1) 1 100) p
              else GRULayer (InputLayer None 1) 1 100)
             [Fixed (- 1), Fixed 1])
          k)
       [BatchSize, SeqLen, Fixed k]"

definition train_model :: "real \<Rightarrow> sst" where
  "train_model p =
     (kwargs ''train'' 1 p)\<lparr>train_fn := Some TrainFn, test_fn := Some TestLossFn,
        network := built_network 1 p, velocity := [0]\<rparr>"

definition test_model :: "real \<Rightarrow> sst" where
  "test_model p =
     (kwargs ''test'' 1 p)\<lparr>train_fn := None, test_fn := Some PredictFn,
        network := built_network 1 p\<rparr>"

section \<open>Minibatches\<close>

lemma range_len_batches:
  assumes "0 < B" "0 \<le> n"
  shows "range_len 0 (n - B + 1) B = nat (n div B)"
proof (cases "B \<le> n")
  case True
  have "(n - B) div B + 1 = n div B"
    using True assms div_pos_geq by presburger
  then show ?thesis using True assms by (simp add: range_len_def)
next
  case False
  then have "n div B = 0" using assms by (simp add: div_pos_pos_trivial)
  then show ?thesis using False assms by (simp add: range_len_def)
qed

lemma py_range_batches:
  assumes "0 < B"
  shows "py_range 0 (int n - B + 1) B = Inr (map (\<lambda>k. int k * B) [0..<n div nat B])"
proof -
  have "nat (int n div B) = n div nat B"
    using assms by (metis nat_div_distrib nat_int of_nat_0_le_iff)
  then show ?thesis
    using assms range_len_batches [of B "int n"] by (simp add: py_range_def)
qed

lemma slice_index_nonneg: "0 \<le> i \<Longrightarrow> slice_index n i = min n (nat i)"
  by (simp add: slice_index_def)

lemma py_slice_nat:
  assumes "0 < B"
  shows "py_slice xs (int k * B) (int k * B + B) = take (nat B) (drop (k * nat B) xs)"
proof -
  have lo: "nat (int k * B) = k * nat B"
    using assms by (simp add: nat_mult_distrib)
  have hi: "nat (int k * B + B) = k * nat B + nat B"
    using assms lo by (simp add: nat_add_distrib)
  have "take (min (length xs) (k * nat B + nat B) - min (length xs) (k * nat B))
          (drop (min (length xs) (k * nat B)) xs) = take (nat B) (drop (k * nat B) xs)"
  proof (cases "k * nat B \<le> length xs")
    case True
    have a: "min (length xs) (k * nat B) = k * nat B" using True by simp
    have b: "min (length xs) (k * nat B + nat B) - k * nat B
        = min (length (drop (k * nat B) xs)) (nat B)" using True by (simp add: min_def) arith
    have "take (min (length (drop (k * nat B) xs)) (nat B)) (drop (k * nat B) xs)
        = take (nat B) (drop (k * nat B) xs)"
      by (metis min.commute take_all_iff take_take order_refl)
    then show ?thesis unfolding a b .
  next
    case False
    then show ?thesis by (simp add: min_def)
  qed
  then show ?thesis
    using assms by (simp add: py_slice_def slice_index_nonneg lo hi Let_def)
qed

lemma yield_batches_plain:
  "yield_batches False idx xs ys B starts =
     Inr (map (\<lambda>s. (py_slice xs s (s + B), py_slice ys s (s + B))) starts)"
  by (induction starts) (simp_all add: excerpt_of_def)

lemma take_indices_ok:
  "set idx \<subseteq> {..<length xs} \<Longrightarrow> take_indices xs idx = Inr (map (nth xs) idx)"
  by (auto simp: take_indices_def list_all_iff)

lemma py_slice_subset: "set (py_slice xs a b) \<subseteq> set xs"
  by (metis py_slice_def set_drop_subset set_take_subset subset_trans)

lemma yield_batches_shuffled:
  assumes "set idx \<subseteq> {..<length xs}" "length ys = length xs"
  shows "yield_batches True idx xs ys B starts =
     Inr (map (\<lambda>s. (map (nth xs) (py_slice idx s (s + B)),
                     map (nth ys) (py_slice idx s (s + B)))) starts)"
proof (induction starts)
  case Nil
  show ?case by simp
next
  case (Cons s starts)
  have sub: "set (py_slice idx s (s + B)) \<subseteq> {..<length xs}"
    using assms(1) py_slice_subset by fastforce
  then have "take_indices xs (py_slice idx s (s + B)) = Inr (map (nth xs) (py_slice idx s (s + B)))"
    by (rule take_indices_ok)
  moreover have "take_indices ys (py_slice idx s (s + B)) = Inr (map (nth ys) (py_slice idx s (s + B)))"
    using sub assms(2) by (simp add: take_indices_ok)
  ultimately show ?case using Cons.IH by (simp add: excerpt_of_def)
qed

lemma concat_chunks:
  "concat (map (\<lambda>k. take B (drop (k * B) xs)) [0..<m]) = take (m * B) xs"
proof (induction m)
  case 0
  show ?case by simp
next
  case (Suc m)
  have "take (m * B) xs @ take B (drop (m * B) xs) = take (m * B + B) xs"
    by (simp add: take_add)
  then show ?case using Suc by (simp add: add.commute)
qed


lemma chunk_length:
  assumes "k < length zs div B"
  shows "length (take B (drop (k * B) zs)) = B"
proof -
  have "Suc k * B \<le> (length zs div B) * B" using assms by (simp add: Suc_leI mult_le_mono1 del: mult_Suc)
  also have "\<dots> \<le> length zs" by simp
  finally show ?thesis by simp
qed

lemma div_mult_eq_diff_mod: "(n div B) * B = n - n mod (B::nat)"
  by (metis minus_mod_eq_div_mult)

lemma iterate_minibatches_batches:
  assumes "0 < B" and "B \<le> int (length xs)" and "length ys = length xs"
    and "shuffle \<longrightarrow> set idx = {..<length xs} \<and> length idx = length xs"
  shows "\<exists>bs. iterate_minibatches idx xs ys B shuffle = Inr bs
     \<and> length bs = length xs div nat B
     \<and> (\<forall>b\<in>set bs. length (fst b) = nat B \<and> length (snd b) = nat B)
     \<and> concat (map fst bs) =
         take (length xs - length xs mod nat B) (if shuffle then map (nth xs) idx else xs)
     \<and> concat (map snd bs) =
         take (length xs - length xs mod nat B) (if shuffle then map (nth ys) idx else ys)"
proof -
  let ?n = "length xs" and ?b = "nat B"
  let ?m = "?n div ?b"
  let ?starts = "map (\<lambda>k. int k * B) [0..<?m]"
  have rng: "py_range 0 (int ?n - B + 1) B = Inr ?starts"
    using assms(1) by (rule py_range_batches)
  show ?thesis
  proof (cases shuffle)
    case False
    let ?bs = "map (\<lambda>k. (take ?b (drop (k * ?b) xs), take ?b (drop (k * ?b) ys))) [0..<?m]"
    have run: "iterate_minibatches idx xs ys B shuffle = Inr ?bs"
      using False assms(1,3) rng
      by (simp add: iterate_minibatches_def yield_batches_plain py_slice_nat comp_def)
    have len: "\<forall>b\<in>set ?bs. length (fst b) = ?b \<and> length (snd b) = ?b"
      using chunk_length [of _ xs ?b] chunk_length [of _ ys ?b] assms(3) by auto
    have cx: "concat (map fst ?bs) = take (?n - ?n mod ?b) xs"
      using concat_chunks [of ?b xs ?m] by (simp add: comp_def div_mult_eq_diff_mod)
    have cy: "concat (map snd ?bs) = take (?n - ?n mod ?b) ys"
      using concat_chunks [of ?b ys ?m] by (simp add: comp_def div_mult_eq_diff_mod)
    show ?thesis using run len cx cy False by (intro exI [of _ ?bs]) simp
  next
    case True
    then have idx: "set idx \<subseteq> {..<?n}" "length idx = ?n" using assms(4) by auto
    let ?bs = "map (\<lambda>k. (map (nth xs) (take ?b (drop (k * ?b) idx)),
                          map (nth ys) (take ?b (drop (k * ?b) idx)))) [0..<?m]"
    have run: "iterate_minibatches idx xs ys B shuffle = Inr ?bs"
      using True assms(1,3) rng idx(1)
      by (simp add: iterate_minibatches_def yield_batches_shuffled py_slice_nat comp_def)
    have len: "\<forall>b\<in>set ?bs. length (fst b) = ?b \<and> length (snd b) = ?b"
      using chunk_length [of _ idx ?b] idx(2) by auto
    have "concat (map fst ?bs) = map (nth xs) (concat (map (\<lambda>k. take ?b (drop (k * ?b) idx)) [0..<?m]))"
      by (simp add: map_concat comp_def)
    then have cx: "concat (map fst ?bs) = take (?n - ?n mod ?b) (map (nth xs) idx)"
      by (simp add: concat_chunks div_mult_eq_diff_mod take_map)
    have "concat (map snd ?bs) = map (nth ys) (concat (map (\<lambda>k. take ?b (drop (k * ?b) idx)) [0..<?m]))"
      by (simp add: map_concat comp_def)
    then have cy: "concat (map snd ?bs) = take (?n - ?n mod ?b) (map (nth ys) idx)"
      by (simp add: concat_chunks div_mult_eq_diff_mod take_map)
    show ?thesis using run len cx cy True by (intro exI [of _ ?bs]) simp
  qed
qed

text \<open>
  Claim C7.  For a batch size \<open>B > 0\<close> and \<open>n \<ge> B\<close> samples, \<open>iterate_minibatches\<close>
  yields \<open>n div B\<close> batches, each of exactly \<open>B\<close> samples; together they are the first
  \<open>n - n mod B\<close> samples of the ordering (the shuffled one, or the data's own), so the
  trailing \<open>n mod B\<close> samples are dropped and nothing is padded.
\<close>

theorem iterate_minibatches_full_batches:
  assumes "0 < B" and "B \<le> int (length xs)" and "length ys = length xs"
    and "shuffle \<longrightarrow> set idx = {..<length xs} \<and> length idx = length xs"
  shows "\<exists>bs. iterate_minibatches idx xs ys B shuffle = Inr bs
     \<and> length bs = length xs div nat B
     \<and> (\<forall>b\<in>set bs. length (fst b) = nat B \<and> length (snd b) = nat B)
     \<and> concat (map fst bs) =
         take (length xs - length xs mod nat B) (if shuffle then map (nth xs) idx else xs)
     \<and> concat (map snd bs) =
         take (length xs - length xs mod nat B) (if shuffle then map (nth ys) idx else ys)"
  using assms by (rule iterate_minibatches_batches)

text \<open>
  The two scenarios of the specification: 64 samples with batch size 50 (one batch of
  the first 50 samples, 14 dropped) and with batch size 64 (one batch, none dropped).
\<close>

theorem iterate_minibatches_full_batches_witness:
  "(\<exists>bs. iterate_minibatches [] [0..<64::nat] [0..<64::nat] 50 False = Inr bs
     \<and> length bs = 1 \<and> concat (map fst bs) = [0..<50]) \<and>
   (\<exists>bs. iterate_minibatches (rev [0..<64]) [0..<64::nat] [0..<64::nat] 64 True = Inr bs
     \<and> length bs = 1 \<and> concat (map fst bs) = rev [0..<64])"
proof -
  have a: "\<exists>bs. iterate_minibatches [] [0..<64::nat] [0..<64::nat] 50 False = Inr bs
     \<and> length bs = 1 \<and> concat (map fst bs) = [0..<50]"
    using iterate_minibatches_full_batches [of 50 "[0..<64::nat]" "[0..<64::nat]" False "[]"]
    by (simp add: take_upt) blast
  have m: "map ((!) [0..<64::nat]) (rev [0..<64]) = rev [0..<64]"
    by (rule map_idI) simp
  have b: "\<exists>bs. iterate_minibatches (rev [0..<64]) [0..<64::nat] [0..<64::nat] 64 True = Inr bs
     \<and> length bs = 1 \<and> concat (map fst bs) = rev [0..<64]"
    using iterate_minibatches_full_batches [of 64 "[0..<64::nat]" "[0..<64::nat]" True "rev [0..<64]"]
    by (simp add: lessThan_atLeast0 m) blast
  show ?thesis using a b by blast
qed

section \<open>Binarising the labels\<close>

lemma binarize_elem:
  assumes "v \<le> 1"
  shows "assign_lt t (assign_ge t v) = (if v \<ge> t then 1 else 0)"
  using assms by (simp add: assign_lt_def assign_ge_def)

lemma binarize_unit_interval:
  assumes "\<forall>s\<in>set y. \<forall>r\<in>set s. \<forall>v\<in>set r. 0 \<le> v \<and> v \<le> 1"
  shows "binarize tIoU y = map (map (map (\<lambda>v. if v \<ge> tIoU then 1 else 0))) y"
  using assms by (simp add: binarize_def binarize_elem)

text \<open>
  Claim C6.  For every threshold and every label array whose entries are temporal-IoU
  values (in \<open>[0, 1]\<close>), binarisation gives label 1 exactly where the value is at least
  the threshold, and 0 elsewhere; the threshold itself counts as positive.
\<close>

theorem binarize_threshold:
  assumes "\<forall>s\<in>set y. \<forall>r\<in>set s. \<forall>v\<in>set r. 0 \<le> v \<and> v \<le> 1"
  shows "binarize tIoU y = map (map (map (\<lambda>v. if v \<ge> tIoU then 1 else 0))) y"
  using assms by (rule binarize_unit_interval)

text \<open>The scenario of the specification: threshold 0.5 on the values 0.3, 0.5, 0.7.\<close>

theorem binarize_threshold_witness:
  "binarize (1/2) [[[3/10, 1/2, 7/10]]] = [[[0, 1, 1]]]"
  using binarize_threshold [of "[[[3/10, 1/2, 7/10]]]" "1/2"] by simp


section \<open>The class weights\<close>

lemma column_count:
  assumes "\<forall>row\<in>set sample. k < length row"
  shows "length (filter (\<lambda>row. row ! k) (map (map (\<lambda>x. x = v)) sample))
       = length (filter (\<lambda>row. row ! k = v) sample)"
proof -
  have "filter ((\<lambda>row. row ! k) \<circ> map (\<lambda>x. x = v)) sample = filter (\<lambda>row. row ! k = v) sample"
    using assms by (intro filter_cong) auto
  then show ?thesis by (simp add: filter_map)
qed

lemma np_mean_Some: "xs \<noteq> [] \<Longrightarrow> np_mean (map Some xs) = Some (sum_list xs / real (length xs))"
  by (simp add: np_mean_def list_ex_iff comp_def)

lemma class_weight_at:
  assumes "y \<noteq> []" and "0 < T" and "k < K"
    and "\<forall>s\<in>set y. length s = T \<and> (\<forall>row\<in>set s. length row = K)"
  shows "\<exists>w. class_weight K (int T) v y = Inr w \<and> length w = K
           \<and> w ! k = Some (mean_label_fraction v k y)"
proof -
  let ?rows = "map (map (\<lambda>c. np_divide (real c) (int T))) (sum_axis1 K (eq_mask v y))"
  have col: "map (\<lambda>r. r ! k) ?rows = map Some (map (label_fraction v k) y)"
  proof -
    have "(map (\<lambda>c. np_divide (real c) (int T))
             (map (\<lambda>k. length (filter (\<lambda>row. row ! k) (map (map (\<lambda>x. x = v)) s))) [0..<K])) ! k
          = Some (label_fraction v k s)" if "s \<in> set y" for s
    proof -
      have "\<forall>row\<in>set s. k < length row" using assms(3,4) that by auto
      then have "length (filter (\<lambda>row. row ! k) (map (map (\<lambda>x. x = v)) s))
          = length (filter (\<lambda>row. row ! k = v) s)" by (rule column_count)
      moreover have "length s = T" using assms(4) that by auto
      ultimately show ?thesis
        using assms(2,3) by (simp add: np_divide_def label_fraction_def)
    qed
    then show ?thesis by (simp add: sum_axis1_def eq_mask_def comp_def)
  qed
  have "mean_axis0 K ?rows ! k = np_mean (map (\<lambda>r. r ! k) ?rows)"
    using assms(3) unfolding mean_axis0_def by (simp del: map_map)
  also have "\<dots> = np_mean (map Some (map (label_fraction v k) y))"
    by (simp only: col)
  also have "\<dots> = Some (mean_label_fraction v k y)"
    using assms(1) by (simp add: np_mean_Some mean_label_fraction_def del: map_map)
  finally have "mean_axis0 K ?rows ! k = Some (mean_label_fraction v k y)" .
  moreover have "length (mean_axis0 K ?rows) = K" by (simp add: mean_axis0_def)
  ultimately show ?thesis using assms(1) by (simp add: class_weight_def)
qed

lemma mean_constant:
  assumes "y \<noteq> []" and "\<forall>s\<in>set y. f s = (c::real)"
  shows "sum_list (map f y) / real (length y) = c"
proof -
  have "map f y = replicate (length y) c"
    using assms(2) by (simp add: map_replicate_const [symmetric] cong: map_cong)
  then have "sum_list (map f y) = real (length y) * c" by (simp add: sum_list_replicate)
  then show ?thesis using assms(1) by simp
qed

lemma binary_column_split:
  assumes "\<forall>row\<in>set s. row ! k = (0::real) \<or> row ! k = 1"
  shows "length (filter (\<lambda>row. row ! k = 0) s) = length s - length (filter (\<lambda>row. row ! k = 1) s)"
proof -
  have "filter (\<lambda>row. row ! k = 0) s = filter (\<lambda>row. \<not> row ! k = 1) s"
    using assms by (intro filter_cong) auto
  then show ?thesis
    using sum_length_filter_compl [of "\<lambda>row. row ! k = 1" s] by simp
qed

lemma scenario_weights:
  "class_weights 1 128 [replicate 16 [1] @ replicate 112 [0]] = (Inr [Some (1/8)], Inr [Some (7/8)])"
  by (simp add: class_weights_def class_weight_def mean_axis0_def sum_axis1_def eq_mask_def
      np_divide_def np_mean_def)

text \<open>
  Claim C2 as stated fails: on one sample with 16 of its 128 timesteps positive, the
  code's \<open>w1\<close> is 7/8 (the fraction of negatives) and its \<open>w0\<close> is 1/8 (the fraction of
  positives), not the other way round.
\<close>

theorem class_weights_w1_positive_fraction_counterexample:
  "snd (class_weights 1 128 [replicate 16 [1] @ replicate 112 [0]]) = Inr [Some (7/8)]
   \<and> fst (class_weights 1 128 [replicate 16 [1] @ replicate 112 [0]]) = Inr [Some (1/8)]
   \<and> mean_label_fraction 1 0 [replicate 16 [1] @ replicate 112 [0]] = 1/8
   \<and> snd (class_weights 1 128 [replicate 16 [1] @ replicate 112 [0]])
        \<noteq> Inr [Some (mean_label_fraction 1 0 [replicate 16 [1] @ replicate 112 [0]])]"
  using scenario_weights by (simp add: mean_label_fraction_def label_fraction_def)

text \<open>
  Claim C2, amended.  For a binarised label array of at least one sample, with
  \<open>seq_length\<close> the number of timesteps \<open>T > 0\<close> of every sample, and for every anchor
  \<open>k\<close>: \<open>w0\<close> is the mean over the samples of the fraction of positive labels per
  sequence and \<open>w1\<close> the mean fraction of negative labels.  Where every sample has
  exactly \<open>p\<close> positive timesteps for the anchor, \<open>w0 = p / T\<close> and \<open>w1 = (T - p) / T\<close>.
\<close>

lemma class_weights_fractions_aux:
  assumes "y \<noteq> []" and "0 < T" and "k < K"
    and "\<forall>s\<in>set y. length s = T \<and> (\<forall>row\<in>set s. length row = K \<and> (row ! k = 0 \<or> row ! k = 1))"
  shows "\<exists>w0 w1. class_weights K (int T) y = (Inr w0, Inr w1)
     \<and> w0 ! k = Some (mean_label_fraction 1 k y)
     \<and> w1 ! k = Some (mean_label_fraction 0 k y)
     \<and> ((\<forall>s\<in>set y. length (filter (\<lambda>row. row ! k = 1) s) = p) \<longrightarrow>
          w0 ! k = Some (real p / real T) \<and> w1 ! k = Some (real (T - p) / real T))"
proof -
  have shape: "\<forall>s\<in>set y. length s = T \<and> (\<forall>row\<in>set s. length row = K)"
    using assms(4) by blast
  obtain w0 where w0: "class_weight K (int T) 1 y = Inr w0" "w0 ! k = Some (mean_label_fraction 1 k y)"
    using class_weight_at [OF assms(1,2,3) shape, of 1] by blast
  obtain w1 where w1: "class_weight K (int T) 0 y = Inr w1" "w1 ! k = Some (mean_label_fraction 0 k y)"
    using class_weight_at [OF assms(1,2,3) shape, of 0] by blast
  have scen: "mean_label_fraction 1 k y = real p / real T \<and>
              mean_label_fraction 0 k y = real (T - p) / real T"
    if p: "\<forall>s\<in>set y. length (filter (\<lambda>row. row ! k = 1) s) = p"
  proof -
    have pos: "\<forall>s\<in>set y. label_fraction 1 k s = real p / real T"
      using p assms(4) by (simp add: label_fraction_def)
    have neg: "\<forall>s\<in>set y. label_fraction 0 k s = real (T - p) / real T"
    proof
      fix s assume s: "s \<in> set y"
      then have "\<forall>row\<in>set s. row ! k = 0 \<or> row ! k = 1" using assms(4) by blast
      then have "length (filter (\<lambda>row. row ! k = 0) s) = length s - length (filter (\<lambda>row. row ! k = 1) s)"
        by (rule binary_column_split)
      then show "label_fraction 0 k s = real (T - p) / real T"
        using s p assms(4) by (simp add: label_fraction_def)
    qed
    show ?thesis
      using mean_constant [OF assms(1) pos] mean_constant [OF assms(1) neg]
      by (simp add: mean_label_fraction_def)
  qed
  show ?thesis
    using w0 w1 scen by (simp add: class_weights_def)
qed

theorem class_weights_fractions:
  assumes "y \<noteq> []" and "0 < T" and "k < K"
    and "\<forall>s\<in>set y. length s = T \<and> (\<forall>row\<in>set s. length row = K \<and> (row ! k = 0 \<or> row ! k = 1))"
  shows "\<exists>w0 w1. class_weights K (int T) y = (Inr w0, Inr w1)
     \<and> w0 ! k = Some (mean_label_fraction 1 k y)
     \<and> w1 ! k = Some (mean_label_fraction 0 k y)
     \<and> ((\<forall>s\<in>set y. length (filter (\<lambda>row. row ! k = 1) s) = p) \<longrightarrow>
          w0 ! k = Some (real p / real T) \<and> w1 ! k = Some (real (T - p) / real T))"
  using assms by (rule class_weights_fractions_aux)

text \<open>The scenario: 16 of 128 timesteps positive gives \<open>w0 = 0.125\<close> and \<open>w1 = 0.875\<close>.\<close>

theorem class_weights_fractions_witness:
  "\<exists>w0 w1. class_weights 1 128 [replicate 16 [1] @ replicate 112 [0]] = (Inr w0, Inr w1)
     \<and> w0 ! 0 = Some (1/8) \<and> w1 ! 0 = Some (7/8)"
proof -
  let ?y = "[replicate 16 [1] @ replicate 112 [0::real]]"
  have shape: "\<forall>s\<in>set ?y. length s = 128 \<and> (\<forall>row\<in>set s. length row = 1 \<and> (row ! 0 = 0 \<or> row ! 0 = 1))"
    by auto
  have p: "\<forall>s\<in>set ?y. length (filter (\<lambda>row. row ! 0 = 1) s) = 16"
    by simp
  have ne: "?y \<noteq> []" and T: "0 < (128::nat)" and k: "(0::nat) < 1"
    by simp_all
  show ?thesis
    using class_weights_fractions [OF ne T k shape, of 16] p by simp blast
qed

section \<open>The training loop\<close>

lemma eval_batch_frame:
  "params (fst (eval_batch L st b)) = params st \<and>
   opt_state (fst (eval_batch L st b)) = opt_state st \<and>
   grads (fst (eval_batch L st b)) = grads st"
  by (simp add: eval_batch_def Let_def split: prod.splits)

lemma eval_pass_frame:
  "params (fst (eval_pass L st a n bs)) = params st \<and>
   opt_state (fst (eval_pass L st a n bs)) = opt_state st \<and>
   grads (fst (eval_pass L st a n bs)) = grads st"
proof (induction bs arbitrary: st a n)
  case Nil
  show ?case by simp
next
  case (Cons b bs)
  obtain st' l where e: "eval_batch L st b = (st', l)" by (cases "eval_batch L st b")
  have "params st' = params st \<and> opt_state st' = opt_state st \<and> grads st' = grads st"
    using eval_batch_frame [of L st b] e by simp
  then show ?case using Cons.IH [of st' "a + l" "n + 1"] e by simp
qed

lemma eval_pass_count: "snd (snd (eval_pass L st a n bs)) = n + length bs"
  by (induction bs arbitrary: st a n) (simp_all split: prod.splits)

lemma train_pass_count: "snd (snd (train_pass L st a n bs)) = n + length bs"
  by (induction bs arbitrary: st a n) (simp_all split: prod.splits)

text \<open>
  Claim C8.  The evaluation pass of an epoch applies no update: the model parameters
  and the optimiser state (and the stored gradients) after the whole pass are those
  before it, whatever the batches.
\<close>

theorem evaluation_pass_keeps_parameters:
  "params (fst (eval_pass L st loss_sum batches bs)) = params st \<and>
   opt_state (fst (eval_pass L st loss_sum batches bs)) = opt_state st \<and>
   grads (fst (eval_pass L st loss_sum batches bs)) = grads st"
  by (rule eval_pass_frame)

text \<open>
  On two batches the evaluation pass leaves the parameters \<open>[1, 1]\<close> alone, where one
  batch of the training pass moves them.
\<close>

theorem evaluation_pass_keeps_parameters_witness:
  "params (fst (eval_pass toy_learner fresh_trainer 0 0 [([1, 2], [3, 4]), ([5, 6], [7, 8])])) = [1, 1] \<and>
   opt_state (fst (eval_pass toy_learner fresh_trainer 0 0 [([1, 2], [3, 4]), ([5, 6], [7, 8])])) = [0, 0] \<and>
   params (fst (train_pass toy_learner fresh_trainer 0 0 [([1, 2], [3, 4])])) = [99/100, 99/100]"
proof -
  have "params (fst (train_pass toy_learner fresh_trainer 0 0 [([1, 2], [3, 4])])) = [99/100, 99/100]"
    by (simp add: train_batch_def toy_learner_def fresh_trainer_def Let_def)
  then show ?thesis
    using evaluation_pass_keeps_parameters
      [of toy_learner fresh_trainer 0 0 "[([1, 2], [3, 4]), ([5, 6], [7, 8])]"]
    by (simp add: fresh_trainer_def)
qed

lemma iterate_minibatches_small:
  assumes "int (length xs) < B" and "length ys = length xs"
  shows "iterate_minibatches idx xs ys B shuffle = Inr []"
proof -
  have pos: "0 < B" using assms(1) by linarith
  have "length xs < nat B" using assms(1) by linarith
  then have "length xs div nat B = 0" by simp
  then have "py_range 0 (int (length xs) - B + 1) B = Inr []"
    using py_range_batches [OF pos, of "length xs"] by simp
  then show ?thesis using assms(2) by (simp add: iterate_minibatches_def)
qed

lemma run_epoch_no_batches:
  assumes "iterate_minibatches idx X y (batch_size A) True = Inr []"
    and "iterate_minibatches idx X y (batch_size A) False = Inr vb"
  shows "run_epoch L A idx X y i (st, fs) = Inl (ZeroDivisionError, fs)"
  using assms by (simp add: run_epoch_def py_truediv_def split: prod.splits)

lemma save_dir_unbound: "lookup_name (main_scope d) ''save_dir'' = Inl NameError"
  by (simp add: lookup_name_def main_scope_def)

lemma mkdir_files: "mkdir fs p = Inr fs' \<Longrightarrow> files fs' = files fs"
  by (auto simp: mkdir_def split: if_splits)

lemma mkdir_result:
  "mkdir fs p = (if p \<noteq> [] \<and> \<not> path_exists fs p \<and> parent_exists fs p
                 then Inr (fs\<lparr>dirs := insert (strip_slashes p) (dirs fs)\<rparr>) else Inl OSError)"
  by (simp add: mkdir_def)

lemma save_checkpoint_tenth:
  assumes "i mod 10 = 0" and "0 < tb" and "0 < vb"
  shows "\<exists>fs'. save_checkpoint A i st lt tb lv vb fs =
           Inl (if path_exists fs (param_dir A @ method_name A)
                   \<or> (param_dir A @ method_name A \<noteq> [] \<and> parent_exists fs (param_dir A @ method_name A))
                then NameError else OSError, fs')
         \<and> files fs' = files fs"
  using assms
  by (simp add: save_checkpoint_def py_truediv_def save_dir_unbound Let_def mkdir_result)

lemma save_checkpoint_other:
  assumes "i mod 10 \<noteq> 0"
  shows "save_checkpoint A i st lt tb lv vb fs = Inr fs"
  using assms by (simp add: save_checkpoint_def)

lemma run_epoch_tenth:
  assumes "iterate_minibatches idx X y (batch_size A) True = Inr tb" and "tb \<noteq> []"
    and "iterate_minibatches idx X y (batch_size A) False = Inr vb" and "vb \<noteq> []"
    and "i mod 10 = 0"
  shows "\<exists>fs'. run_epoch L A idx X y i (st, fs) =
           Inl (if path_exists fs (param_dir A @ method_name A)
                   \<or> (param_dir A @ method_name A \<noteq> [] \<and> parent_exists fs (param_dir A @ method_name A))
                then NameError else OSError, fs')
         \<and> files fs' = files fs"
proof -
  obtain st1 lt tn where t: "train_pass L (st\<lparr>training := True\<rparr>) 0 0 tb = (st1, lt, tn)"
    by (cases "train_pass L (st\<lparr>training := True\<rparr>) 0 0 tb") auto
  obtain st2 lv vn where v: "eval_pass L (st1\<lparr>training := False\<rparr>) 0 0 vb = (st2, lv, vn)"
    by (cases "eval_pass L (st1\<lparr>training := False\<rparr>) 0 0 vb") auto
  have tn: "0 < tn"
    using train_pass_count [of L "st\<lparr>training := True\<rparr>" 0 0 tb] t assms(2) by simp
  have vn: "0 < vn"
    using eval_pass_count [of L "st1\<lparr>training := False\<rparr>" 0 0 vb] v assms(4) by simp
  obtain fs' where s: "save_checkpoint A i st2 lt tn lv vn fs =
           Inl (if path_exists fs (param_dir A @ method_name A)
                   \<or> (param_dir A @ method_name A \<noteq> [] \<and> parent_exists fs (param_dir A @ method_name A))
                then NameError else OSError, fs')" "files fs' = files fs"
    using save_checkpoint_tenth [OF assms(5) tn vn] by blast
  have "run_epoch L A idx X y i (st, fs) =
           Inl (if path_exists fs (param_dir A @ method_name A)
                   \<or> (param_dir A @ method_name A \<noteq> [] \<and> parent_exists fs (param_dir A @ method_name A))
                then NameError else OSError, fs')"
    using assms(1,3) t v tn vn s(1) by (simp add: run_epoch_def py_truediv_def)
  then show ?thesis using s(2) by blast
qed

text \<open>
  Claim C9.  With \<open>0 < n < B\<close> samples both passes of an epoch get no minibatch, the
  batch counters stay 0, and the report of the epoch's losses divides by zero: the epoch
  ends in \<open>ZeroDivisionError\<close> with the file system untouched, and so does a run of at
  least one epoch.
\<close>

theorem too_few_samples_divide_by_zero:
  assumes "0 < length X" and "int (length X) < batch_size A" and "length y = length X"
  shows "iterate_minibatches idx X y (batch_size A) True = Inr []
     \<and> iterate_minibatches idx X y (batch_size A) False = Inr []
     \<and> run_epoch L A idx X y i (st, fs) = Inl (ZeroDivisionError, fs)
     \<and> (0 < num_epochs A \<longrightarrow>
          training_loop L A shuffle_of X y (st, fs) = Inl (ZeroDivisionError, fs))"
proof -
  have none: "iterate_minibatches idx' X y (batch_size A) sh = Inr []" for idx' sh
    using assms(2,3) by (rule iterate_minibatches_small)
  have ep: "run_epoch L A idx' X y j (st, fs) = Inl (ZeroDivisionError, fs)" for idx' j
    using none none by (rule run_epoch_no_batches)
  have "training_loop L A shuffle_of X y (st, fs) = Inl (ZeroDivisionError, fs)"
    if "0 < num_epochs A"
  proof -
    have "[0..<nat (num_epochs A)] = 0 # [1..<nat (num_epochs A)]"
      using that by (simp add: upt_conv_Cons)
    then show ?thesis using ep by (simp add: training_loop_def)
  qed
  then show ?thesis using none ep by blast
qed

theorem too_few_samples_divide_by_zero_witness:
  "training_loop toy_learner baseline_args (\<lambda>i. [0, 1, 2]) [1, 2, 3] [0, 1, 0] (fresh_trainer, empty_fs)
     = Inl (ZeroDivisionError, empty_fs)
   \<and> iterate_minibatches [0, 1, 2] [1, 2, 3::real] [0, 1, 0::real] 64 True = Inr []"
  using too_few_samples_divide_by_zero
    [of "[1, 2, 3]" baseline_args "[0, 1, 0]" "[0, 1, 2]" toy_learner 0 fresh_trainer empty_fs "\<lambda>i. [0, 1, 2]"]
  by (simp add: baseline_args_def)

text \<open>
  Claim C3 fails on the code.  A run of at least one epoch on \<open>n \<ge> B > 0\<close> samples
  reaches the checkpoint of epoch 0 and ends there in an exception, and no checkpoint
  file has been written.  Where the checkpoint directory exists, or is missing and can
  be made (its parent exists), the path of the file is built from \<open>save_dir\<close>, a name
  bound nowhere, and the exception is \<open>NameError\<close>; otherwise \<open>os.mkdir\<close> has raised
  \<open>OSError\<close> before.
\<close>

theorem first_checkpoint_never_written:
  assumes "0 < batch_size A" and "batch_size A \<le> int (length X)" and "length y = length X"
    and "set (shuffle_of 0) = {..<length X} \<and> length (shuffle_of 0) = length X"
    and "0 < num_epochs A"
  shows "\<exists>fs'. training_loop L A shuffle_of X y (st, fs) =
           Inl (if path_exists fs (param_dir A @ method_name A)
                   \<or> (param_dir A @ method_name A \<noteq> [] \<and> parent_exists fs (param_dir A @ method_name A))
                then NameError else OSError, fs')
         \<and> files fs' = files fs"
proof -
  have n: "0 < length X div nat (batch_size A)"
    using assms(1,2) by (simp add: div_greater_zero_iff nat_le_iff)
  obtain tb where tb: "iterate_minibatches (shuffle_of 0) X y (batch_size A) True = Inr tb"
      "length tb = length X div nat (batch_size A)"
    using iterate_minibatches_batches [OF assms(1,2,3), of True "shuffle_of 0"] assms(4) by blast
  obtain vb where vb: "iterate_minibatches (shuffle_of 0) X y (batch_size A) False = Inr vb"
      "length vb = length X div nat (batch_size A)"
    using iterate_minibatches_batches [OF assms(1,2,3), of False "shuffle_of 0"] by blast
  have ne: "tb \<noteq> []" "vb \<noteq> []" using n tb(2) vb(2) by auto
  obtain fs' where ep: "run_epoch L A (shuffle_of 0) X y 0 (st, fs) =
           Inl (if path_exists fs (param_dir A @ method_name A)
                   \<or> (param_dir A @ method_name A \<noteq> [] \<and> parent_exists fs (param_dir A @ method_name A))
                then NameError else OSError, fs')" "files fs' = files fs"
    using run_epoch_tenth [OF tb(1) ne(1) vb(1) ne(2), of 0 L st fs] by auto
  have "[0..<nat (num_epochs A)] = 0 # [1..<nat (num_epochs A)]"
    using assms(5) by (simp add: upt_conv_Cons)
  then have "training_loop L A shuffle_of X y (st, fs) =
           Inl (if path_exists fs (param_dir A @ method_name A)
                   \<or> (param_dir A @ method_name A \<noteq> [] \<and> parent_exists fs (param_dir A @ method_name A))
                then NameError else OSError, fs')"
    using ep(1) by (simp add: training_loop_def)
  then show ?thesis using ep(2) by blast
qed

text \<open>
  Three samples with batch size 2: where the directory \<open>params\<close> exists the run ends in
  \<open>NameError\<close>, on an empty file system in \<open>OSError\<close>; no file is written either way.
\<close>

theorem first_checkpoint_never_written_witness:
  "(\<exists>fs'. training_loop toy_learner small_batch_args (\<lambda>i. [2, 0, 1]) [1, 2, 3] [0, 1, 0]
            (fresh_trainer, params_fs) = Inl (NameError, fs')
       \<and> files fs' = Map.empty)
   \<and> (\<exists>fs'. training_loop toy_learner small_batch_args (\<lambda>i. [2, 0, 1]) [1, 2, 3] [0, 1, 0]
            (fresh_trainer, empty_fs) = Inl (OSError, fs')
       \<and> files fs' = Map.empty)"
proof -
  have perm: "set [2, 0, 1::nat] = {..<length [1, 2, 3::real]} \<and> length [2, 0, 1::nat] = length [1, 2, 3::real]"
    by auto
  have b: "0 < batch_size small_batch_args" "batch_size small_batch_args \<le> int (length [1, 2, 3::real])"
    "length [0, 1, 0::real] = length [1, 2, 3::real]" "0 < num_epochs small_batch_args"
    by (simp_all add: small_batch_args_def)
  have d: "param_dir small_batch_args @ method_name small_batch_args = ''params/baseline''"
    by (simp add: small_batch_args_def)
  have s: "strip_slashes ''params/baseline'' = ''params/baseline''"
    "dirname ''params/baseline'' = ''params''" "strip_slashes ''params'' = ''params''"
    by (simp_all add: strip_slashes_def dirname_def is_slash_def)
  have p: "\<not> path_exists params_fs ''params/baseline''" "parent_exists params_fs ''params/baseline''"
    "\<not> path_exists empty_fs ''params/baseline''" "\<not> parent_exists empty_fs ''params/baseline''"
    by (simp_all add: path_exists_def parent_exists_def dir_exists_def s params_fs_def empty_fs_def)
  have f: "files params_fs = Map.empty" "files empty_fs = Map.empty"
    by (simp_all add: params_fs_def empty_fs_def)
  have a1: "\<exists>fs'. training_loop toy_learner small_batch_args (\<lambda>i. [2, 0, 1]) [1, 2, 3] [0, 1, 0]
            (fresh_trainer, params_fs) = Inl (NameError, fs') \<and> files fs' = Map.empty"
    using first_checkpoint_never_written
      [of small_batch_args "[1, 2, 3]" "[0, 1, 0]" "\<lambda>i. [2, 0, 1]", OF b(1,2,3) perm b(4),
       of toy_learner fresh_trainer params_fs]
    by (simp add: d p f)
  have a2: "\<exists>fs'. training_loop toy_learner small_batch_args (\<lambda>i. [2, 0, 1]) [1, 2, 3] [0, 1, 0]
            (fresh_trainer, empty_fs) = Inl (OSError, fs') \<and> files fs' = Map.empty"
    using first_checkpoint_never_written
      [of small_batch_args "[1, 2, 3]" "[0, 1, 0]" "\<lambda>i. [2, 0, 1]", OF b(1,2,3) perm b(4),
       of toy_learner fresh_trainer empty_fs]
    by (simp add: d p f)
  show ?thesis using a1 a2 by blast
qed

section \<open>The model: construction, loss and forward pass\<close>

lemma build_network_toy:
  "build_network toy_backend (kwargs md k p) = Inr (built_network k p)"
  by (simp add: build_network_def new_layer_def toy_backend_def kwargs_def built_network_def)

lemma kwargs_fields:
  "num_proposals (kwargs md k p) = k" "dropout (kwargs md k p) = p" "mode (kwargs md k p) = md"
  "test_fn (kwargs md k p) = None" "w0 (kwargs md k p) = Some (1/8)" "w1 (kwargs md k p) = Some (7/8)"
  "theta (kwargs md k p) = [1]"
  by (simp_all add: kwargs_def)

lemma init_toy:
  "0 \<le> k \<Longrightarrow> 0 \<le> p \<Longrightarrow> p \<le> 1 \<Longrightarrow>
   init toy_backend (kwargs md k p)
     = Inr ((kwargs md k p)\<lparr>train_fn := None, test_fn := None, network := built_network k p\<rparr>)"
  by (simp add: init_def build_network_toy kwargs_fields)

lemma compile_train_model:
  "0 \<le> p \<Longrightarrow> p \<le> 1 \<Longrightarrow>
   (case init toy_backend (kwargs ''train'' 1 p) of Inl e \<Rightarrow> Inl e | Inr m \<Rightarrow> compile m)
     = Inr (train_model p)"
  by (simp add: init_toy compile_def kwargs_fields train_model_def)

lemma compile_test_model:
  "0 \<le> p \<Longrightarrow> p \<le> 1 \<Longrightarrow>
   (case init toy_backend (kwargs ''test'' 1 p) of Inl e \<Rightarrow> Inl e | Inr m \<Rightarrow> compile m)
     = Inr (test_model p)"
  by (simp add: init_toy compile_def kwargs_fields test_model_def)

lemma network_no_dropout:
  "network (train_model 0) =
     ReshapeLayer (DenseLayer (ReshapeLayer (GRULayer (InputLayer None 1) 1 100) [Fixed (- 1), Fixed 1]) 1)
       [BatchSize, SeqLen, Fixed 1]"
  by (simp add: train_model_def built_network_def)

lemma network_dropout:
  "network (train_model (1/2)) =
     ReshapeLayer (DenseLayer (ReshapeLayer (DropoutLayer (GRULayer (InputLayer None 1) 1 100) (1/2))
       [Fixed (- 1), Fixed 1]) 1) [BatchSize, SeqLen, Fixed 1]"
  by (simp add: train_model_def built_network_def)

lemma data_one_input: "data (one_input a) = [a]"
  by (simp add: one_input_def)

lemma sigmoid_0: "sigmoid 0 = 1/2"
  by (simp add: sigmoid_def)

lemma train_prediction_no_dropout:
  "train_prediction toy_backend (train_model 0) th r (one_input 0) = [1/2]"
  by (simp add: train_prediction_def network_no_dropout toy_backend_def one_input_def sigmoid_0 clip_def)

lemma init_own_checks:
  "init be kw =
     (if num_proposals kw < 0 \<or> dropout kw < 0 \<or> 1 < dropout kw then Inl ValueError
      else (case build_network be kw of
              Inl e \<Rightarrow> Inl e
            | Inr l \<Rightarrow> Inr (kw\<lparr>train_fn := None, test_fn := None, network := l\<rparr>)))"
  by (simp add: init_def)

text \<open>
  The check of \<open>__init__\<close> on the number of proposals tests \<open>num_proposals < 0.0\<close>:
  \<open>-1\<close> is refused with \<open>ValueError\<close> before any layer is built, while with 0 the
  constructor raises nothing of its own and its outcome is the library's, on a dense
  layer of 0 units and a reshape to 0 columns.
\<close>

lemma init_zero_proposals:
  "init be (kwargs ''train'' 0 (1/2)) =
     (case build_network be (kwargs ''train'' 0 (1/2)) of
        Inl e \<Rightarrow> Inl e
      | Inr l \<Rightarrow> Inr ((kwargs ''train'' 0 (1/2))\<lparr>train_fn := None, test_fn := None, network := l\<rparr>))
   \<and> (\<exists>m. init toy_backend (kwargs ''train'' 0 (1/2)) = Inr m \<and> num_proposals m = 0
          \<and> network m = built_network 0 (1/2))
   \<and> init be (kwargs ''train'' (- 1) (1/2)) = Inl ValueError"
proof -
  have k: "num_proposals (kwargs ''train'' 0 (1/2)) = 0" "dropout (kwargs ''train'' 0 (1/2)) = 1/2"
    "num_proposals (kwargs ''train'' (- 1) (1/2)) = - 1"
    by (simp_all add: kwargs_def)
  show ?thesis
    by (simp add: init_own_checks k build_network_toy)
qed

lemma loss_expr_single:
  "loss_expr a b [y] [p] = Inr (Some (- (b * y * ln p + (1 - a * (1 - y)) * ln (1 - p))))"
  by (simp add: loss_expr_def tensor_mean_def)

lemma spec_loss_single:
  "spec_loss a b [y] [p] = Some (- (b * y * ln p + a * (1 - y) * ln (1 - p)))"
  by (simp add: spec_loss_def tensor_mean_def)

lemma ln_half: "ln (1/2 :: real) = - ln 2"
  by (simp add: ln_div)

text \<open>
  Claim C1 fails on the code.  The loss of lines 123--128 multiplies \<open>log (1 - p)\<close> by
  \<open>1 - w0 (1 - y)\<close>, not by \<open>w0 (1 - y)\<close>.  On one element with target 1 and
  prediction 1/2 (inside the clipping range), with \<open>w0 = 1/8\<close> and \<open>w1 = 7/8\<close>, the
  training loss is \<open>15/8 log 2\<close> where the specification's formula gives \<open>7/8 log 2\<close>.
\<close>

theorem train_loss_not_weighted_cross_entropy:
  "train_loss_of toy_backend (train_model 0) (theta (train_model 0)) 0 (one_input 0) (one_input 1)
     = Inr (Some (15/8 * ln 2))
   \<and> spec_loss (1/8) (7/8) (data (one_input 1))
        (train_prediction toy_backend (train_model 0) (theta (train_model 0)) 0 (one_input 0))
     = Some (7/8 * ln 2)
   \<and> (15/8 * ln 2 :: real) \<noteq> 7/8 * ln 2"
proof -
  have w: "w0 (train_model 0) = Some (1/8)" "w1 (train_model 0) = Some (7/8)"
    by (simp_all add: train_model_def kwargs_def)
  have a: "train_loss_of toy_backend (train_model 0) (theta (train_model 0)) 0 (one_input 0) (one_input 1)
     = Inr (Some (15/8 * ln 2))"
    by (simp add: train_loss_of_def w train_prediction_no_dropout data_one_input loss_expr_single ln_half)
  have b: "spec_loss (1/8) (7/8) (data (one_input 1))
        (train_prediction toy_backend (train_model 0) (theta (train_model 0)) 0 (one_input 0))
     = Some (7/8 * ln 2)"
    by (simp add: train_prediction_no_dropout data_one_input spec_loss_single ln_half)
  have "(0::real) < ln 2" by simp
  then have c: "(15/8 * ln 2 :: real) \<noteq> 7/8 * ln 2" by simp
  show ?thesis using a b c by blast
qed

lemma deterministic_output_ignores_stream:
  "get_output be th True r x l = get_output be th True r' x l"
  by (induction l) simp_all

lemma test_loss_is_train_loss:
  "test_loss_of be self th r x y = train_loss_of be self th r x y"
  by (simp add: test_loss_of_def train_loss_of_def)

lemma sigmoid_2_gt_half: "1/2 < sigmoid 2"
proof -
  have "exp (- 2 :: real) < 1" by simp
  then have "1 + exp (- 2 :: real) < 2" by simp
  moreover have "0 < 1 + exp (- 2 :: real)" by (simp add: add_pos_pos)
  ultimately have "1 / 2 < 1 / (1 + exp (- 2 :: real))"
    by (simp add: field_simps)
  then show ?thesis by (simp add: sigmoid_def)
qed

lemma clip_gt_half:
  assumes "1/2 < s"
  shows "1/2 < clip s 0.001 0.999 \<and> clip s 0.001 0.999 < 1"
  using assms by (simp add: clip_def)

lemma train_prediction_dropped:
  "train_prediction toy_backend (train_model (1/2)) th (Suc 0) (one_input 1) = [1/2]"
  by (simp add: train_prediction_def network_dropout toy_backend_def one_input_def sigmoid_0 clip_def)

lemma train_prediction_kept:
  "train_prediction toy_backend (train_model (1/2)) th 0 (one_input 1) = [clip (sigmoid 2) 0.001 0.999]"
  by (simp add: train_prediction_def network_dropout toy_backend_def one_input_def)

text \<open>
  Claim C4 fails on the code.  The evaluation loss of lines 135--141 is written on
  \<open>train_prediction\<close>, the pass with dropout active.  With dropout probability 1/2, the
  same parameters, input and target give two different evaluation losses for two
  states of the random stream, although the deterministic prediction, which the loss
  does not use, is the same for both.
\<close>

theorem eval_loss_depends_on_dropout_mask:
  "test_loss_of toy_backend (train_model (1/2)) (theta (train_model (1/2))) 0 (one_input 1) (one_input 0)
     \<noteq> test_loss_of toy_backend (train_model (1/2)) (theta (train_model (1/2))) 1 (one_input 1) (one_input 0)
   \<and> test_prediction toy_backend (train_model (1/2)) (theta (train_model (1/2))) 0 (one_input 1)
     = test_prediction toy_backend (train_model (1/2)) (theta (train_model (1/2))) 1 (one_input 1)"
proof -
  let ?c = "clip (sigmoid 2) 0.001 0.999"
  have w: "w0 (train_model (1/2)) = Some (1/8)" "w1 (train_model (1/2)) = Some (7/8)"
    by (simp_all add: train_model_def kwargs_def)
  have c: "1/2 < ?c" "?c < 1" using clip_gt_half [OF sigmoid_2_gt_half] by simp_all
  have kept: "test_loss_of toy_backend (train_model (1/2)) th 0 (one_input 1) (one_input 0)
      = Inr (Some (- (7/8 * ln (1 - ?c))))" for th
    by (simp add: test_loss_is_train_loss train_loss_of_def w train_prediction_kept
        data_one_input loss_expr_single)
  have dropped: "test_loss_of toy_backend (train_model (1/2)) th 1 (one_input 1) (one_input 0)
      = Inr (Some (- (7/8 * ln (1/2))))" for th
    by (simp add: test_loss_is_train_loss train_loss_of_def w train_prediction_dropped
        data_one_input loss_expr_single)
  have "ln (1 - ?c) \<noteq> ln (1/2)"
  proof
    assume "ln (1 - ?c) = ln (1/2)"
    then have "1 - ?c = 1/2" using c(2) by (simp add: ln_inj_iff)
    then show False using c(1) by simp
  qed
  then have ne: "- (7/8 * ln (1 - ?c)) \<noteq> - (7/8 * ln (1/2))" by simp
  have det: "test_prediction toy_backend (train_model (1/2)) th 0 (one_input 1)
     = test_prediction toy_backend (train_model (1/2)) th 1 (one_input 1)" for th
    using deterministic_output_ignores_stream [of toy_backend th 0 "one_input 1" _ 1]
    by (simp add: test_prediction_def)
  show ?thesis using kept dropped ne det by simp
qed










end
